theory Spec2Isabelle
  imports Main
begin

unbundle bit_operations_syntax

section \<open>Idempotency persistence layer (utilities/idempotency/persistence/base.py)\<close>

text \<open>
  A shallow embedding of \<^verbatim>\<open>DataRecord\<close> and \<^verbatim>\<open>BasePersistenceLayer\<close>.
  Python names with a leading underscore lose it (\<^verbatim>\<open>_save_to_cache\<close> is
  \<open>save_to_cache\<close>); the attribute \<^verbatim>\<open>_status\<close> is the field \<open>raw_status\<close>.
  Every read of \<^verbatim>\<open>int(datetime.datetime.now().timestamp())\<close> is the argument
  \<open>now\<close> of the function that reads the clock.
\<close>

subsection \<open>Errors\<close>

datatype error =
    IdempotencyInvalidStatusError string
  | IdempotencyItemAlreadyExistsError
  | IdempotencyValidationError
  | IdempotencyItemNotFoundError
  | KeyError string
  | OverflowError

subsection \<open>DataRecord\<close>

definition INPROGRESS :: string where "INPROGRESS = ''INPROGRESS''"
definition COMPLETED :: string where "COMPLETED = ''COMPLETED''"
definition EXPIRED :: string where "EXPIRED = ''EXPIRED''"

text \<open>\<^verbatim>\<open>STATUS_CONSTANTS.values()\<close>: the three strings the mapping holds.\<close>

definition STATUS_CONSTANTS_values :: "string list" where
  "STATUS_CONSTANTS_values = [INPROGRESS, COMPLETED, EXPIRED]"

text \<open>
  \<^verbatim>\<open>payload_hash\<close> and \<^verbatim>\<open>expiry_timestamp\<close> default to \<^verbatim>\<open>None\<close>,
  \<^verbatim>\<open>status\<close> and \<^verbatim>\<open>response_data\<close> to the empty string.
\<close>

record DataRecord =
  idempotency_key :: string
  payload_hash :: "string option"
  expiry_timestamp :: "int option"
  raw_status :: string
  response_data :: string

definition DataRecord_init :: "string \<Rightarrow> DataRecord" where
  "DataRecord_init k =
     \<lparr>idempotency_key = k, payload_hash = None, expiry_timestamp = None,
      raw_status = [], response_data = []\<rparr>"

text \<open>
  \<^verbatim>\<open>bool(self.expiry_timestamp and now > self.expiry_timestamp)\<close>: Python's \<^verbatim>\<open>and\<close>
  stops at a falsy left operand, and both \<^verbatim>\<open>None\<close> and \<^verbatim>\<open>0\<close> are falsy.
\<close>

definition is_expired :: "int \<Rightarrow> DataRecord \<Rightarrow> bool" where
  "is_expired now r =
     (case expiry_timestamp r of
        None \<Rightarrow> False
      | Some t \<Rightarrow> t \<noteq> 0 \<and> now > t)"

definition status :: "int \<Rightarrow> DataRecord \<Rightarrow> error + string" where
  "status now r =
     (if is_expired now r then Inr EXPIRED
      else if raw_status r \<in> set STATUS_CONSTANTS_values then Inr (raw_status r)
      else Inl (IdempotencyInvalidStatusError (raw_status r)))"

subsection \<open>JSON values and \<^verbatim>\<open>json.dumps\<close>\<close>

text \<open>
  The values \<^verbatim>\<open>json.dumps\<close> serialises without calling the encoder's
  \<^verbatim>\<open>default\<close> hook (on these \<^verbatim>\<open>cls=Encoder\<close> behaves as the standard encoder).
  A Python \<^verbatim>\<open>dict\<close> keeps its keys in insertion order, so an object is an association
  list. A key is a string, an integer, a boolean or \<^verbatim>\<open>None\<close>; \<^verbatim>\<open>json.dumps\<close> turns a
  key that is not a string into one (\<^verbatim>\<open>1\<close> into \<^verbatim>\<open>'1'\<close>, \<^verbatim>\<open>True\<close> into \<^verbatim>\<open>'true'\<close>,
  \<^verbatim>\<open>None\<close> into \<^verbatim>\<open>'null'\<close>) before it writes it. Floats are left out, and the characters
  of a string are the code points 0 to 255.
\<close>

datatype jkey = KStr string | KInt int | KBool bool | KNone

datatype json =
    JNull
  | JBool bool
  | JInt int
  | JStr string
  | JArr "json list"
  | JObj "(jkey \<times> json) list"

definition hex_digit :: "nat \<Rightarrow> char" where
  "hex_digit n = ''0123456789abcdef'' ! (n mod 16)"

text \<open>
  \<^verbatim>\<open>ensure_ascii=True\<close>: a backslash, a double quote and every character outside
  the range space to tilde is escaped, the others are copied.
\<close>

definition py_encode_char :: "char \<Rightarrow> string" where
  "py_encode_char c =
     (if c = CHR 0x5C then [CHR 0x5C, CHR 0x5C]
      else if c = CHR 0x22 then [CHR 0x5C, CHR 0x22]
      else if c = CHR 0x08 then [CHR 0x5C, CHR ''b'']
      else if c = CHR 0x0C then [CHR 0x5C, CHR ''f'']
      else if c = CHR 0x0A then [CHR 0x5C, CHR ''n'']
      else if c = CHR 0x0D then [CHR 0x5C, CHR ''r'']
      else if c = CHR 0x09 then [CHR 0x5C, CHR ''t'']
      else if of_char c < (0x20 :: nat) \<or> (0x7E :: nat) < of_char c
        then [CHR 0x5C, CHR ''u'', CHR ''0'', CHR ''0'',
              hex_digit (of_char c div 16), hex_digit (of_char c)]
      else [c])"

definition py_encode_basestring_ascii :: "string \<Rightarrow> string" where
  "py_encode_basestring_ascii s = [CHR 0x22] @ concat (map py_encode_char s) @ [CHR 0x22]"

fun nat_repr :: "nat \<Rightarrow> string" where
  "nat_repr n =
     (if n < 10 then [hex_digit n] else nat_repr (n div 10) @ [hex_digit (n mod 10)])"

declare nat_repr.simps [simp del]

definition int_repr :: "int \<Rightarrow> string" where
  "int_repr i = (if i < 0 then CHR ''-'' # nat_repr (nat (- i)) else nat_repr (nat i))"

fun key_str :: "jkey \<Rightarrow> string" where
  "key_str (KStr s) = s"
| "key_str (KInt i) = int_repr i"
| "key_str (KBool b) = (if b then ''true'' else ''false'')"
| "key_str KNone = ''null''"

text \<open>The default separators: \<^verbatim>\<open>', '\<close> between items and \<^verbatim>\<open>': '\<close> after a key.\<close>

fun json_dumps :: "json \<Rightarrow> string"
  and dumps_items :: "json list \<Rightarrow> string"
  and dumps_members :: "(jkey \<times> json) list \<Rightarrow> string" where
  "json_dumps JNull = ''null''"
| "json_dumps (JBool b) = (if b then ''true'' else ''false'')"
| "json_dumps (JInt i) = int_repr i"
| "json_dumps (JStr s) = py_encode_basestring_ascii s"
| "json_dumps (JArr xs) = ''['' @ dumps_items xs @ '']''"
| "json_dumps (JObj kvs) = ''{'' @ dumps_members kvs @ ''}''"
| "dumps_items [] = []"
| "dumps_items [x] = json_dumps x"
| "dumps_items (x # y # xs) = json_dumps x @ '', '' @ dumps_items (y # xs)"
| "dumps_members [] = []"
| "dumps_members [(k, v)] = py_encode_basestring_ascii (key_str k) @ '': '' @ json_dumps v"
| "dumps_members ((k, v) # kv # kvs) =
     py_encode_basestring_ascii (key_str k) @ '': '' @ json_dumps v @ '', ''
       @ dumps_members (kv # kvs)"

subsection \<open>The default hash function\<close>

text \<open>
  \<^verbatim>\<open>hash_function\<close> defaults to \<^verbatim>\<open>"md5"\<close>, so the layer calls
  \<^verbatim>\<open>hashlib.md5(bytes).hexdigest()\<close>. This is MD5 as RFC 1321 defines it, on 32-bit words held
  as naturals with the wrap-around written out: the table pairs each step's rotation with
  its additive constant.
\<close>

type_synonym md5_state = "nat \<times> nat \<times> nat \<times> nat"

definition md5_table :: "(nat \<times> nat) list" where
  "md5_table =
    [(7, 0xd76aa478), (12, 0xe8c7b756), (17, 0x242070db), (22, 0xc1bdceee),
     (7, 0xf57c0faf), (12, 0x4787c62a), (17, 0xa8304613), (22, 0xfd469501),
     (7, 0x698098d8), (12, 0x8b44f7af), (17, 0xffff5bb1), (22, 0x895cd7be),
     (7, 0x6b901122), (12, 0xfd987193), (17, 0xa679438e), (22, 0x49b40821),
     (5, 0xf61e2562), (9, 0xc040b340), (14, 0x265e5a51), (20, 0xe9b6c7aa),
     (5, 0xd62f105d), (9, 0x02441453), (14, 0xd8a1e681), (20, 0xe7d3fbc8),
     (5, 0x21e1cde6), (9, 0xc33707d6), (14, 0xf4d50d87), (20, 0x455a14ed),
     (5, 0xa9e3e905), (9, 0xfcefa3f8), (14, 0x676f02d9), (20, 0x8d2a4c8a),
     (4, 0xfffa3942), (11, 0x8771f681), (16, 0x6d9d6122), (23, 0xfde5380c),
     (4, 0xa4beea44), (11, 0x4bdecfa9), (16, 0xf6bb4b60), (23, 0xbebfbc70),
     (4, 0x289b7ec6), (11, 0xeaa127fa), (16, 0xd4ef3085), (23, 0x04881d05),
     (4, 0xd9d4d039), (11, 0xe6db99e5), (16, 0x1fa27cf8), (23, 0xc4ac5665),
     (6, 0xf4292244), (10, 0x432aff97), (15, 0xab9423a7), (21, 0xfc93a039),
     (6, 0x655b59c3), (10, 0x8f0ccc92), (15, 0xffeff47d), (21, 0x85845dd1),
     (6, 0x6fa87e4f), (10, 0xfe2ce6e0), (15, 0xa3014314), (21, 0x4e0811a1),
     (6, 0xf7537e82), (10, 0xbd3af235), (15, 0x2ad7d2bb), (21, 0xeb86d391)]"

definition rotl32 :: "nat \<Rightarrow> nat \<Rightarrow> nat" where
  "rotl32 n w = (w * 2 ^ n) mod 4294967296 + w div 2 ^ (32 - n)"

definition not32 :: "nat \<Rightarrow> nat" where
  "not32 w = 4294967295 - w"

definition add32 :: "nat \<Rightarrow> nat \<Rightarrow> nat" where
  "add32 a b = (a + b) mod 4294967296"

definition md5_F :: "nat \<Rightarrow> nat \<Rightarrow> nat \<Rightarrow> nat \<Rightarrow> nat" where
  "md5_F i B C D =
     (if i < 16 then (B AND C) OR (not32 B AND D)
      else if i < 32 then (D AND B) OR (not32 D AND C)
      else if i < 48 then B XOR C XOR D
      else C XOR (B OR not32 D))"

definition md5_g :: "nat \<Rightarrow> nat" where
  "md5_g i =
     (if i < 16 then i
      else if i < 32 then (5 * i + 1) mod 16
      else if i < 48 then (3 * i + 5) mod 16
      else (7 * i) mod 16)"

fun md5_rounds :: "nat list \<Rightarrow> nat \<Rightarrow> (nat \<times> nat) list \<Rightarrow> md5_state \<Rightarrow> md5_state" where
  "md5_rounds M i [] st = st"
| "md5_rounds M i ((s, k) # sks) (A, B, C, D) =
     md5_rounds M (i + 1) sks
       (D, add32 B (rotl32 s (add32 (add32 (add32 (md5_F i B C D) A) k) (M ! md5_g i))), B, C)"

fun le_words :: "char list \<Rightarrow> nat list" where
  "le_words (a # b # c # d # cs) =
     (of_char a + 256 * of_char b + 65536 * of_char c + 16777216 * of_char d) # le_words cs"
| "le_words cs = []"

function chunks :: "nat \<Rightarrow> 'a list \<Rightarrow> 'a list list" where
  "chunks n xs = (if n = 0 \<or> xs = [] then [] else take n xs # chunks n (drop n xs))"
  by pat_completeness auto
termination
  by (relation "measure (\<lambda>(n, xs). length xs)") auto

declare chunks.simps [simp del]

fun add4 :: "md5_state \<Rightarrow> md5_state \<Rightarrow> md5_state" where
  "add4 (a0, b0, c0, d0) (A, B, C, D) = (add32 a0 A, add32 b0 B, add32 c0 C, add32 d0 D)"

definition md5_chunk :: "md5_state \<Rightarrow> char list \<Rightarrow> md5_state" where
  "md5_chunk h bs = add4 h (md5_rounds (le_words bs) 0 md5_table h)"

fun md5_blocks :: "md5_state \<Rightarrow> char list list \<Rightarrow> md5_state" where
  "md5_blocks h [] = h"
| "md5_blocks h (b # bs) = md5_blocks (md5_chunk h b) bs"

definition md5_pad :: "char list \<Rightarrow> char list" where
  "md5_pad m =
     m @ [CHR 0x80] @ replicate ((119 - length m mod 64) mod 64) (CHR 0x00) @
     map (\<lambda>i. char_of ((8 * length m) div 256 ^ i)) [0, 1, 2, 3, 4, 5, 6, 7]"

definition byte_hex :: "nat \<Rightarrow> char list" where
  "byte_hex b = [hex_digit (b div 16), hex_digit b]"

definition word_hex_le :: "nat \<Rightarrow> char list" where
  "word_hex_le w =
     byte_hex (w mod 256) @ byte_hex (w div 256 mod 256) @
     byte_hex (w div 65536 mod 256) @ byte_hex (w div 16777216 mod 256)"

fun md5_hex :: "md5_state \<Rightarrow> char list" where
  "md5_hex (a, b, c, d) = word_hex_le a @ word_hex_le b @ word_hex_le c @ word_hex_le d"

definition md5_hexdigest :: "char list \<Rightarrow> char list" where
  "md5_hexdigest m =
     md5_hex (md5_blocks (0x67452301, 0xefcdab89, 0x98badcfe, 0x10325476) (chunks 64 (md5_pad m)))"

subsection \<open>JMESPath\<close>

text \<open>
  \<^verbatim>\<open>jmespath.compile(expr).search(event)\<close> belongs to a library; the layer keeps the
  compiled search as a function from the event to the extracted value, and a search that
  matches nothing returns \<^verbatim>\<open>None\<close>, here \<open>JNull\<close>. \<open>jmespath_field k\<close> is that search
  for an expression \<open>k\<close> that is one bare identifier, the only expressions the examples
  use: it selects the member of an object whose key is the string \<open>k\<close>. Expressions
  with operators (\<^verbatim>\<open>a.b\<close>, \<^verbatim>\<open>a[0]\<close>) are not of this form.
\<close>

definition jmespath_field :: "string \<Rightarrow> json \<Rightarrow> json" where
  "jmespath_field k ev =
     (case ev of
        JObj kvs \<Rightarrow> (case map_of kvs (KStr k) of Some v \<Rightarrow> v | None \<Rightarrow> JNull)
      | _ \<Rightarrow> JNull)"

subsection \<open>The local cache\<close>

text \<open>
  Modelled from the spec: the class \<^verbatim>\<open>LRUDict\<close> of
  \<^verbatim>\<open>aws_lambda_powertools/shared/cache_dict.py\<close>, which is not among the sources. The
  spec describes a bounded map of capacity N with least-recently-used eviction on read and
  on write access, and the operations get, put and delete. The entries are listed oldest
  first. The layer deletes with Python's \<^verbatim>\<open>del d[k]\<close>, which raises \<^verbatim>\<open>KeyError\<close> on a key
  the dictionary does not hold, and reads with \<^verbatim>\<open>d.get(k)\<close>, which returns \<^verbatim>\<open>None\<close> there.
\<close>

type_synonym 'v LRUDict = "(string \<times> 'v) list"

definition LRUDict_get :: "string \<Rightarrow> 'v LRUDict \<Rightarrow> 'v option \<times> 'v LRUDict" where
  "LRUDict_get k d =
     (case map_of d k of
        None \<Rightarrow> (None, d)
      | Some v \<Rightarrow> (Some v, filter (\<lambda>kv. fst kv \<noteq> k) d @ [(k, v)]))"

definition LRUDict_setitem :: "int \<Rightarrow> string \<Rightarrow> 'v \<Rightarrow> 'v LRUDict \<Rightarrow> 'v LRUDict" where
  "LRUDict_setitem max_items k v d =
     (let d' = filter (\<lambda>kv. fst kv \<noteq> k) d @ [(k, v)]
      in if int (length d') > max_items then tl d' else d')"

definition LRUDict_delitem :: "string \<Rightarrow> 'v LRUDict \<Rightarrow> error + 'v LRUDict" where
  "LRUDict_delitem k d =
     (case map_of d k of
        None \<Rightarrow> Inl (KeyError k)
      | Some v \<Rightarrow> Inr (filter (\<lambda>kv. fst kv \<noteq> k) d))"

subsection \<open>BasePersistenceLayer\<close>

text \<open>
  The attributes \<^verbatim>\<open>__init__\<close> sets. \<open>hash_function\<close> is the digest of the configured
  \<^verbatim>\<open>hashlib\<close> algorithm as a function from the encoded bytes to \<^verbatim>\<open>hexdigest()\<close>.
\<close>

record BasePersistenceLayer =
  event_key_jmespath :: string
  event_key_compiled_jmespath :: "json \<Rightarrow> json"
  expires_after_seconds :: int
  use_local_cache :: bool
  local_cache_max_items :: int
  payload_validation_enabled :: bool
  validation_key_jmespath :: "json \<Rightarrow> json"
  hash_function :: "string \<Rightarrow> string"

text \<open>
  \<^verbatim>\<open>__init__\<close>, with \<^verbatim>\<open>jmespath.compile\<close> and the resolved hash function as arguments.
  An attribute that \<^verbatim>\<open>__init__\<close> leaves unset (the compiled search of an empty expression)
  is never read; its field holds the identity.
\<close>

definition BasePersistenceLayer_init ::
  "(string \<Rightarrow> json \<Rightarrow> json) \<Rightarrow> string \<Rightarrow> string \<Rightarrow> int \<Rightarrow> bool \<Rightarrow> int \<Rightarrow> (string \<Rightarrow> string)
     \<Rightarrow> BasePersistenceLayer" where
  "BasePersistenceLayer_init compile ekj pvj eas ulc lcmi hf =
     \<lparr>event_key_jmespath = ekj,
      event_key_compiled_jmespath = (if ekj \<noteq> [] then compile ekj else (\<lambda>ev. ev)),
      expires_after_seconds = eas,
      use_local_cache = ulc,
      local_cache_max_items = lcmi,
      payload_validation_enabled = (pvj \<noteq> []),
      validation_key_jmespath = (if pvj \<noteq> [] then compile pvj else (\<lambda>ev. ev)),
      hash_function = hf\<rparr>"

text \<open>The mutable part: the cache, and the records the four abstract methods act on.\<close>

record persistence_state =
  cache :: "DataRecord LRUDict"
  store :: "string \<rightharpoonup> DataRecord"

definition generate_hash :: "BasePersistenceLayer \<Rightarrow> json \<Rightarrow> string" where
  "generate_hash L data = hash_function L (json_dumps data)"

definition get_hashed_idempotency_key :: "BasePersistenceLayer \<Rightarrow> json \<Rightarrow> string" where
  "get_hashed_idempotency_key L lambda_event =
     generate_hash L
       (if event_key_jmespath L \<noteq> [] then event_key_compiled_jmespath L lambda_event
        else lambda_event)"

definition get_hashed_payload :: "BasePersistenceLayer \<Rightarrow> json \<Rightarrow> string" where
  "get_hashed_payload L lambda_event =
     (if \<not> payload_validation_enabled L then []
      else generate_hash L (validation_key_jmespath L lambda_event))"

text \<open>\<^verbatim>\<open>data_record.payload_hash != lambda_payload_hash\<close>: \<^verbatim>\<open>None\<close> differs from every string.\<close>

definition validate_payload :: "BasePersistenceLayer \<Rightarrow> json \<Rightarrow> DataRecord \<Rightarrow> error + unit" where
  "validate_payload L lambda_event data_record =
     (if payload_validation_enabled L then
        (if payload_hash data_record \<noteq> Some (get_hashed_payload L lambda_event)
         then Inl IdempotencyValidationError else Inr ())
      else Inr ())"

text \<open>
  \<^verbatim>\<open>int((now + period).timestamp())\<close>. The clock is read at or after the epoch: \<open>now\<close> is
  its whole seconds and \<open>frac\<close> says whether it has a fractional part. The sum is
  truncated towards zero after the addition, so a negative sum with a fractional part
  rounds up. \<^verbatim>\<open>datetime\<close> raises \<^verbatim>\<open>OverflowError\<close> for an instant outside the years 1 to
  9999; the bounds are those of a local zone without offset.
\<close>

definition get_expiry_timestamp :: "BasePersistenceLayer \<Rightarrow> int \<Rightarrow> bool \<Rightarrow> error + int" where
  "get_expiry_timestamp L now frac =
     (let s = now + expires_after_seconds L
      in if s < - 62135596800 \<or> 253402300800 \<le> s then Inl OverflowError
         else if s < 0 \<and> frac then Inr (s + 1)
         else Inr s)"

definition save_to_cache ::
  "BasePersistenceLayer \<Rightarrow> int \<Rightarrow> DataRecord \<Rightarrow> DataRecord LRUDict
     \<Rightarrow> (error + unit) \<times> DataRecord LRUDict" where
  "save_to_cache L now data_record c =
     (if \<not> use_local_cache L then (Inr (), c)
      else case status now data_record of
             Inl e \<Rightarrow> (Inl e, c)
           | Inr s \<Rightarrow>
               if s = INPROGRESS then (Inr (), c)
               else (Inr (),
                     LRUDict_setitem (local_cache_max_items L)
                       (idempotency_key data_record) data_record c))"

definition delete_from_cache ::
  "BasePersistenceLayer \<Rightarrow> string \<Rightarrow> DataRecord LRUDict \<Rightarrow> (error + unit) \<times> DataRecord LRUDict" where
  "delete_from_cache L k c =
     (if \<not> use_local_cache L then (Inr (), c)
      else case LRUDict_delitem k c of
             Inl e \<Rightarrow> (Inl e, c)
           | Inr c' \<Rightarrow> (Inr (), c'))"

text \<open>A \<^verbatim>\<open>DataRecord\<close> object is truthy, so \<^verbatim>\<open>if cached_record:\<close> asks whether one was found.\<close>

definition retrieve_from_cache ::
  "BasePersistenceLayer \<Rightarrow> int \<Rightarrow> string \<Rightarrow> DataRecord LRUDict
     \<Rightarrow> (error + DataRecord option) \<times> DataRecord LRUDict" where
  "retrieve_from_cache L now k c =
     (if \<not> use_local_cache L then (Inr None, c)
      else case LRUDict_get k c of
             (None, c') \<Rightarrow> (Inr None, c')
           | (Some cached_record, c') \<Rightarrow>
               if \<not> is_expired now cached_record then (Inr (Some cached_record), c')
               else (case delete_from_cache L k c' of
                       (Inl e, c'') \<Rightarrow> (Inl e, c'')
                     | (Inr u, c'') \<Rightarrow> (Inr None, c'')))"

subsection \<open>The persistence store\<close>

text \<open>
  Modelled from the spec: the four abstract methods \<^verbatim>\<open>_get_record\<close>, \<^verbatim>\<open>_put_record\<close>,
  \<^verbatim>\<open>_update_record\<close> and \<^verbatim>\<open>_delete_record\<close>, whose implementations are not among the
  sources. Fetch fails with not-found on an absent key; insert fails with already-exists
  when a record that is not expired holds the key; update overwrites; delete removes and
  tolerates an absent key.
\<close>

definition store_get_record :: "string \<Rightarrow> (string \<rightharpoonup> DataRecord) \<Rightarrow> error + DataRecord" where
  "store_get_record k s =
     (case s k of None \<Rightarrow> Inl IdempotencyItemNotFoundError | Some r \<Rightarrow> Inr r)"

definition store_put_record ::
  "int \<Rightarrow> DataRecord \<Rightarrow> (string \<rightharpoonup> DataRecord) \<Rightarrow> error + (string \<rightharpoonup> DataRecord)" where
  "store_put_record now r s =
     (case s (idempotency_key r) of
        None \<Rightarrow> Inr (s(idempotency_key r \<mapsto> r))
      | Some old \<Rightarrow>
          if is_expired now old then Inr (s(idempotency_key r \<mapsto> r))
          else Inl IdempotencyItemAlreadyExistsError)"

definition store_update_record :: "DataRecord \<Rightarrow> (string \<rightharpoonup> DataRecord) \<Rightarrow> (string \<rightharpoonup> DataRecord)" where
  "store_update_record r s = s(idempotency_key r \<mapsto> r)"

definition store_delete_record :: "DataRecord \<Rightarrow> (string \<rightharpoonup> DataRecord) \<Rightarrow> (string \<rightharpoonup> DataRecord)" where
  "store_delete_record r s = s(idempotency_key r := None)"

subsection \<open>The public operations\<close>

text \<open>
  Each operation returns its result, or the exception it raises, together with the state
  it leaves behind: what was written before a \<^verbatim>\<open>raise\<close> stays written.
\<close>

definition save_success ::
  "BasePersistenceLayer \<Rightarrow> int \<Rightarrow> bool \<Rightarrow> json \<Rightarrow> json \<Rightarrow> persistence_state
     \<Rightarrow> (error + unit) \<times> persistence_state" where
  "save_success L now frac event result st =
     (case get_expiry_timestamp L now frac of
        Inl e \<Rightarrow> (Inl e, st)
      | Inr expiry \<Rightarrow>
          (let data_record =
                 \<lparr>idempotency_key = get_hashed_idempotency_key L event,
                  payload_hash = Some (get_hashed_payload L event),
                  expiry_timestamp = Some expiry,
                  raw_status = COMPLETED,
                  response_data = json_dumps result\<rparr>;
               s' = store_update_record data_record (store st)
           in case save_to_cache L now data_record (cache st) of
                (res, c') \<Rightarrow> (res, \<lparr>cache = c', store = s'\<rparr>)))"

definition save_inprogress ::
  "BasePersistenceLayer \<Rightarrow> int \<Rightarrow> bool \<Rightarrow> json \<Rightarrow> persistence_state
     \<Rightarrow> (error + unit) \<times> persistence_state" where
  "save_inprogress L now frac event st =
     (case get_expiry_timestamp L now frac of
        Inl e \<Rightarrow> (Inl e, st)
      | Inr expiry \<Rightarrow>
          (let data_record =
                 \<lparr>idempotency_key = get_hashed_idempotency_key L event,
                  payload_hash = Some (get_hashed_payload L event),
                  expiry_timestamp = Some expiry,
                  raw_status = INPROGRESS,
                  response_data = []\<rparr>
           in case retrieve_from_cache L now (idempotency_key data_record) (cache st) of
                (Inl e, c') \<Rightarrow> (Inl e, st\<lparr>cache := c'\<rparr>)
              | (Inr (Some cached), c') \<Rightarrow>
                  (Inl IdempotencyItemAlreadyExistsError, st\<lparr>cache := c'\<rparr>)
              | (Inr None, c') \<Rightarrow>
                  (case store_put_record now data_record (store st) of
                     Inl e \<Rightarrow> (Inl e, st\<lparr>cache := c'\<rparr>)
                   | Inr s' \<Rightarrow> (Inr (), \<lparr>cache = c', store = s'\<rparr>))))"

definition delete_record ::
  "BasePersistenceLayer \<Rightarrow> json \<Rightarrow> persistence_state \<Rightarrow> (error + unit) \<times> persistence_state" where
  "delete_record L event st =
     (let data_record = DataRecord_init (get_hashed_idempotency_key L event);
          s' = store_delete_record data_record (store st)
      in case delete_from_cache L (idempotency_key data_record) (cache st) of
           (res, c') \<Rightarrow> (res, \<lparr>cache = c', store = s'\<rparr>))"

definition get_record ::
  "BasePersistenceLayer \<Rightarrow> int \<Rightarrow> json \<Rightarrow> persistence_state
     \<Rightarrow> (error + DataRecord) \<times> persistence_state" where
  "get_record L now event st =
     (let k = get_hashed_idempotency_key L event
      in case retrieve_from_cache L now k (cache st) of
           (Inl e, c') \<Rightarrow> (Inl e, st\<lparr>cache := c'\<rparr>)
         | (Inr (Some cached_record), c') \<Rightarrow>
             (case validate_payload L event cached_record of
                Inl e \<Rightarrow> (Inl e, st\<lparr>cache := c'\<rparr>)
              | Inr u \<Rightarrow> (Inr cached_record, st\<lparr>cache := c'\<rparr>))
         | (Inr None, c') \<Rightarrow>
             (case store_get_record k (store st) of
                Inl e \<Rightarrow> (Inl e, st\<lparr>cache := c'\<rparr>)
              | Inr record \<Rightarrow>
                  (case save_to_cache L now record c' of
                     (Inl e, c'') \<Rightarrow> (Inl e, st\<lparr>cache := c''\<rparr>)
                   | (Inr u, c'') \<Rightarrow>
                       (case validate_payload L event record of
                          Inl e \<Rightarrow> (Inl e, st\<lparr>cache := c''\<rparr>)
                        | Inr u' \<Rightarrow> (Inr record, st\<lparr>cache := c''\<rparr>)))))"

section \<open>Properties\<close>

lemmas status_consts = INPROGRESS_def COMPLETED_def EXPIRED_def STATUS_CONSTANTS_values_def

subsection \<open>Status of a record\<close>

text \<open>
  C1, as the code has it. Reading the status of a record raises
  \<^verbatim>\<open>IdempotencyInvalidStatusError\<close> exactly when the record is not expired at the time of
  the read and its raw status is none of the three values of \<^verbatim>\<open>STATUS_CONSTANTS\<close>
  (INPROGRESS, COMPLETED, EXPIRED); no other error is raised, and a record that is expired
  reads as EXPIRED whatever its raw status.
\<close>

theorem status_invalid_raw_iff:
  "((\<exists>e. status now r = Inl e) \<longleftrightarrow>
      (\<not> is_expired now r \<and> raw_status r \<notin> {INPROGRESS, COMPLETED, EXPIRED}))
   \<and> (\<forall>e. status now r = Inl e \<longrightarrow> e = IdempotencyInvalidStatusError (raw_status r))
   \<and> (is_expired now r \<longrightarrow> status now r = Inr EXPIRED)"
  by (auto simp: status_def STATUS_CONSTANTS_values_def)

theorem status_invalid_raw_iff_witness:
  "\<not> is_expired 5 (DataRecord_init ''k''\<lparr>raw_status := ''UNKNOWN''\<rparr>)
   \<and> raw_status (DataRecord_init ''k''\<lparr>raw_status := ''UNKNOWN''\<rparr>) \<notin> {INPROGRESS, COMPLETED, EXPIRED}
   \<and> status 5 (DataRecord_init ''k''\<lparr>raw_status := ''UNKNOWN''\<rparr>)
        = Inl (IdempotencyInvalidStatusError ''UNKNOWN'')
   \<and> is_expired 5 (DataRecord_init ''k''\<lparr>raw_status := ''UNKNOWN'', expiry_timestamp := Some 4\<rparr>)
   \<and> status 5 (DataRecord_init ''k''\<lparr>raw_status := ''UNKNOWN'', expiry_timestamp := Some 4\<rparr>)
        = Inr EXPIRED"
  using status_invalid_raw_iff [of 5 "DataRecord_init ''k''\<lparr>raw_status := ''UNKNOWN''\<rparr>"]
    status_invalid_raw_iff [of 5 "DataRecord_init ''k''\<lparr>raw_status := ''UNKNOWN'', expiry_timestamp := Some 4\<rparr>"]
  by (simp add: status_def is_expired_def DataRecord_init_def status_consts)

text \<open>
  C1 as stated fails: a record whose raw status is the unknown string UNKNOWN and whose
  expiry timestamp 1 lies before the read at time 2 reads as EXPIRED, with no error.
\<close>

theorem status_invalid_raw_expired_counterexample:
  "raw_status (DataRecord_init ''k''\<lparr>raw_status := ''UNKNOWN'', expiry_timestamp := Some 1\<rparr>)
     \<notin> {INPROGRESS, COMPLETED}
   \<and> status 2 (DataRecord_init ''k''\<lparr>raw_status := ''UNKNOWN'', expiry_timestamp := Some 1\<rparr>)
        = Inr EXPIRED"
  by (simp add: status_def is_expired_def DataRecord_init_def status_consts)




subsection \<open>The local cache\<close>

lemma map_of_filter_key: "map_of (filter (\<lambda>kv. fst kv \<noteq> k) d) k = None"
  by (induction d) auto

lemma LRUDict_get_hit:
  "map_of d k = Some v \<Longrightarrow> LRUDict_get k d = (Some v, filter (\<lambda>kv. fst kv \<noteq> k) d @ [(k, v)])"
  by (simp add: LRUDict_get_def)

lemma LRUDict_delitem_moved:
  "LRUDict_delitem k (filter (\<lambda>kv. fst kv \<noteq> k) d @ [(k, v)]) = Inr (filter (\<lambda>kv. fst kv \<noteq> k) d)"
  by (simp add: LRUDict_delitem_def map_of_filter_key map_add_def)

lemma tl_no_key: "map_of d k = None \<Longrightarrow> map_of (tl d) k = None"
  by (cases d) (auto split: if_splits)

lemma LRUDict_setitem_holds:
  assumes "0 < m"
  shows "map_of (LRUDict_setitem m k v d) k = Some v"
proof -
  let ?f = "filter (\<lambda>kv. fst kv \<noteq> k) d"
  have nk: "map_of ?f k = None" by (rule map_of_filter_key)
  show ?thesis
  proof (cases ?f)
    case Nil
    with assms show ?thesis by (simp add: LRUDict_setitem_def)
  next
    case (Cons x xs)
    then have "map_of xs k = None" using tl_no_key [OF nk] by simp
    with Cons nk show ?thesis
      by (auto simp: LRUDict_setitem_def Let_def map_add_def split: if_splits)
  qed
qed

text \<open>
  C4, as the code has it. \<^verbatim>\<open>_save_to_cache\<close> compares the derived status of the record,
  not its raw status: a record whose raw status is INPROGRESS and that is not expired at
  the time of the call has the derived status INPROGRESS and is not placed in the cache,
  which is left as it was.
\<close>

theorem save_to_cache_inprogress_not_stored:
  "raw_status r = INPROGRESS \<Longrightarrow> \<not> is_expired now r \<Longrightarrow>
     status now r = Inr INPROGRESS \<and> save_to_cache L now r c = (Inr (), c)"
  by (simp add: save_to_cache_def status_def STATUS_CONSTANTS_values_def)

theorem save_to_cache_inprogress_not_stored_witness:
  "raw_status (DataRecord_init ''k''\<lparr>raw_status := INPROGRESS, expiry_timestamp := Some 10\<rparr>) = INPROGRESS
   \<and> \<not> is_expired 5 (DataRecord_init ''k''\<lparr>raw_status := INPROGRESS, expiry_timestamp := Some 10\<rparr>)
   \<and> save_to_cache (BasePersistenceLayer_init jmespath_field [] [] 3600 True 256 md5_hexdigest) 5
        (DataRecord_init ''k''\<lparr>raw_status := INPROGRESS, expiry_timestamp := Some 10\<rparr>) []
      = (Inr (), [])"
  using save_to_cache_inprogress_not_stored
    [of "DataRecord_init ''k''\<lparr>raw_status := INPROGRESS, expiry_timestamp := Some 10\<rparr>" 5
        "BasePersistenceLayer_init jmespath_field [] [] 3600 True 256 md5_hexdigest" "[]"]
  by (simp add: DataRecord_init_def is_expired_def)

text \<open>
  C4 as stated fails: a record whose raw status is INPROGRESS and whose expiry timestamp 1
  lies before the call at time 2 has the derived status EXPIRED and is placed in the cache.
\<close>

theorem save_to_cache_expired_inprogress_counterexample:
  "raw_status (DataRecord_init ''k''\<lparr>raw_status := INPROGRESS, expiry_timestamp := Some 1\<rparr>) = INPROGRESS
   \<and> save_to_cache (BasePersistenceLayer_init jmespath_field [] [] 3600 True 256 md5_hexdigest) 2
        (DataRecord_init ''k''\<lparr>raw_status := INPROGRESS, expiry_timestamp := Some 1\<rparr>) []
      = (Inr (), [(''k'', DataRecord_init ''k''\<lparr>raw_status := INPROGRESS, expiry_timestamp := Some 1\<rparr>)])"
  by (simp add: save_to_cache_def status_def is_expired_def DataRecord_init_def status_consts
        BasePersistenceLayer_init_def LRUDict_setitem_def)

lemma retrieve_from_cache_expired_evicts:
  "use_local_cache L \<Longrightarrow> map_of c k = Some r \<Longrightarrow> is_expired now r \<Longrightarrow>
     retrieve_from_cache L now k c = (Inr None, filter (\<lambda>kv. fst kv \<noteq> k) c)
     \<and> map_of (snd (retrieve_from_cache L now k c)) k = None"
  by (simp add: retrieve_from_cache_def LRUDict_get_hit delete_from_cache_def
        LRUDict_delitem_moved map_of_filter_key)

lemma status_expired_is_expired:
  "status now r = Inr EXPIRED \<Longrightarrow> raw_status r \<noteq> EXPIRED \<Longrightarrow> is_expired now r"
  by (auto simp: status_def split: if_splits)

text \<open>
  C9. A record is stored with the raw status INPROGRESS or COMPLETED, never EXPIRED. For
  every cached record of that kind whose derived status at the time of the read is
  EXPIRED, a cache read evicts the entry and returns nothing, and the key is no longer in
  the cache: an expired record is never returned from the local cache.
\<close>

theorem retrieve_from_cache_status_expired_evicts:
  "use_local_cache L \<Longrightarrow> map_of c k = Some r \<Longrightarrow> raw_status r \<noteq> EXPIRED \<Longrightarrow>
   status now r = Inr EXPIRED \<Longrightarrow>
     retrieve_from_cache L now k c = (Inr None, filter (\<lambda>kv. fst kv \<noteq> k) c)
     \<and> map_of (snd (retrieve_from_cache L now k c)) k = None
     \<and> (\<forall>r'. fst (retrieve_from_cache L now k c) \<noteq> Inr (Some r'))"
proof -
  assume u: "use_local_cache L" and m: "map_of c k = Some r"
    and raw: "raw_status r \<noteq> EXPIRED" and st: "status now r = Inr EXPIRED"
  from st raw have "is_expired now r" by (rule status_expired_is_expired)
  with u m have "retrieve_from_cache L now k c = (Inr None, filter (\<lambda>kv. fst kv \<noteq> k) c)
     \<and> map_of (snd (retrieve_from_cache L now k c)) k = None"
    by (rule retrieve_from_cache_expired_evicts)
  then show ?thesis by (simp add: map_of_filter_key)
qed

theorem retrieve_from_cache_status_expired_evicts_witness:
  "use_local_cache (BasePersistenceLayer_init jmespath_field [] [] 3600 True 256 md5_hexdigest)
   \<and> raw_status (DataRecord_init ''k''\<lparr>raw_status := COMPLETED, expiry_timestamp := Some 10\<rparr>) \<noteq> EXPIRED
   \<and> status 20 (DataRecord_init ''k''\<lparr>raw_status := COMPLETED, expiry_timestamp := Some 10\<rparr>)
        = Inr EXPIRED
   \<and> retrieve_from_cache (BasePersistenceLayer_init jmespath_field [] [] 3600 True 256 md5_hexdigest) 20 ''k''
        [(''k'', DataRecord_init ''k''\<lparr>raw_status := COMPLETED, expiry_timestamp := Some 10\<rparr>)]
      = (Inr None, [])"
  using retrieve_from_cache_status_expired_evicts
    [of "BasePersistenceLayer_init jmespath_field [] [] 3600 True 256 md5_hexdigest"
        "[(''k'', DataRecord_init ''k''\<lparr>raw_status := COMPLETED, expiry_timestamp := Some 10\<rparr>)]"
        "''k''" "DataRecord_init ''k''\<lparr>raw_status := COMPLETED, expiry_timestamp := Some 10\<rparr>" 20]
  by (simp add: BasePersistenceLayer_init_def status_def is_expired_def DataRecord_init_def
        status_consts)

subsection \<open>Hashing\<close>

lemma replicate_numeral: "replicate (numeral k) x = x # replicate (pred_numeral k) x"
  by (simp add: numeral_eq_Suc)

lemmas md5_eval = md5_hexdigest_def md5_pad_def md5_chunk_def md5_table_def rotl32_def md5_F_def
  md5_g_def word_hex_le_def byte_hex_def hex_digit_def replicate_numeral chunks.simps
  not32_def add32_def

lemmas json_eval = py_encode_basestring_ascii_def py_encode_char_def int_repr_def nat_repr.simps

lemma md5_null: "md5_hexdigest (json_dumps JNull) = ''37a6259cc0c1dae299a7866489dff0bd''"
  by (simp add: md5_eval)

lemma hex_digit_inj: "a < 16 \<Longrightarrow> b < 16 \<Longrightarrow> hex_digit a = hex_digit b \<Longrightarrow> a = b"
proof -
  assume a: "a < 16" and b: "b < 16" and e: "hex_digit a = hex_digit b"
  have d: "distinct ''0123456789abcdef''" by simp
  have "''0123456789abcdef'' ! a = ''0123456789abcdef'' ! b"
    using e a b by (simp add: hex_digit_def)
  moreover have "a < length ''0123456789abcdef''" "b < length ''0123456789abcdef''"
    using a b by simp_all
  ultimately show "a = b" using d nth_eq_iff_index_eq by blast
qed

lemma py_encode_char_cases:
  "py_encode_char c = [c] \<and> c \<noteq> CHR 0x5C \<and> c \<noteq> CHR 0x22
   \<or> (\<exists>x. py_encode_char c = [CHR 0x5C, x])
   \<or> py_encode_char c = [CHR 0x5C, CHR ''u'', CHR ''0'', CHR ''0'',
        hex_digit (of_char c div 16), hex_digit (of_char c)]"
  by (simp add: py_encode_char_def)

lemma py_encode_char_first: "\<exists>x xs. py_encode_char c = x # xs \<and> x \<noteq> CHR 0x22"
  using py_encode_char_cases [of c] by auto


lemma of_char_less_256: "(of_char c :: nat) < 256"
proof -
  have "(of_char c :: nat) mod 256 < 256" by simp
  then show ?thesis by simp
qed

lemma hex_pair_inj:
  assumes "hex_digit (of_char c1 div 16) = hex_digit (of_char c2 div 16)"
    and "hex_digit (of_char c1) = hex_digit (of_char c2)"
  shows "c1 = c2"
proof -
  let ?a = "of_char c1 :: nat" and ?b = "of_char c2 :: nat"
  have la: "?a < 256" and lb: "?b < 256" by (rule of_char_less_256)+
  from la have a16: "?a div 16 < 16" by presburger
  from lb have b16: "?b div 16 < 16" by presburger
  have d: "?a div 16 = ?b div 16" by (rule hex_digit_inj [OF a16 b16 assms(1)])
  have "hex_digit (?a mod 16) = hex_digit (?b mod 16)"
    using assms(2) by (simp add: hex_digit_def)
  then have m: "?a mod 16 = ?b mod 16" by (intro hex_digit_inj) simp_all
  have "?a = 16 * (?a div 16) + ?a mod 16" by simp
  also have "\<dots> = 16 * (?b div 16) + ?b mod 16" using d m by simp
  also have "\<dots> = ?b" by simp
  finally have "?a = ?b" .
  then show ?thesis by simp
qed

lemma py_encode_char_prefix:
  "py_encode_char c1 @ x = py_encode_char c2 @ y \<Longrightarrow> c1 = c2"
  by (auto simp: py_encode_char_def split: if_splits dest: hex_pair_inj)


lemma encode_chars_prefix:
  "concat (map py_encode_char k1) @ CHR 0x22 # t1 = concat (map py_encode_char k2) @ CHR 0x22 # t2
     \<Longrightarrow> k1 = k2"
proof (induction k1 arbitrary: k2)
  case Nil
  show ?case
  proof (cases k2)
    case Nil
    then show ?thesis by simp
  next
    case (Cons c cs)
    obtain x xs where "py_encode_char c = x # xs" "x \<noteq> CHR 0x22"
      using py_encode_char_first by blast
    with Nil.prems Cons show ?thesis by simp
  qed
next
  case (Cons c1 cs1)
  show ?case
  proof (cases k2)
    case Nil
    obtain x xs where "py_encode_char c1 = x # xs" "x \<noteq> CHR 0x22"
      using py_encode_char_first by blast
    with Cons.prems Nil show ?thesis by simp
  next
    case (Cons c2 cs2)
    with Cons.prems have e:
      "py_encode_char c1 @ (concat (map py_encode_char cs1) @ CHR 0x22 # t1)
       = py_encode_char c2 @ (concat (map py_encode_char cs2) @ CHR 0x22 # t2)"
      by simp
    then have c: "c1 = c2" by (rule py_encode_char_prefix)
    with e have "concat (map py_encode_char cs1) @ CHR 0x22 # t1
                 = concat (map py_encode_char cs2) @ CHR 0x22 # t2"
      by simp
    then have "cs1 = cs2" by (rule Cons.IH)
    with c Cons show ?thesis by simp
  qed
qed

lemma dumps_members_first_key:
  "dumps_members ((k1, v1) # kvs1) = dumps_members ((k2, v2) # kvs2) \<Longrightarrow> key_str k1 = key_str k2"
proof -
  assume e: "dumps_members ((k1, v1) # kvs1) = dumps_members ((k2, v2) # kvs2)"
  obtain t1 where t1: "dumps_members ((k1, v1) # kvs1)
      = CHR 0x22 # concat (map py_encode_char (key_str k1)) @ CHR 0x22 # t1"
    by (cases kvs1) (simp_all add: py_encode_basestring_ascii_def)
  obtain t2 where t2: "dumps_members ((k2, v2) # kvs2)
      = CHR 0x22 # concat (map py_encode_char (key_str k2)) @ CHR 0x22 # t2"
    by (cases kvs2) (simp_all add: py_encode_basestring_ascii_def)
  from e t1 t2 show "key_str k1 = key_str k2" by (auto dest: encode_chars_prefix)
qed

text \<open>
  C2, as the code has it. The digest is the hash function applied to the
  \<^verbatim>\<open>json.dumps\<close> serialisation, so hashing a value twice, or hashing two values with the
  same serialisation, yields the same digest. \<^verbatim>\<open>json.dumps\<close> is called without
  \<^verbatim>\<open>sort_keys\<close> and writes the entries of a mapping in insertion order: two mappings
  whose first keys are different strings have different serialisations, so reordering
  string keys changes the bytes that are hashed. A key that is not a string is written as
  the string it is turned into, so the keys \<^verbatim>\<open>1\<close> and \<^verbatim>\<open>'1'\<close> serialise alike.
\<close>

theorem generate_hash_of_serialisation:
  "generate_hash L x = hash_function L (json_dumps x)
   \<and> (json_dumps x = json_dumps y \<longrightarrow> generate_hash L x = generate_hash L y)
   \<and> (k1 \<noteq> k2 \<longrightarrow>
        json_dumps (JObj ((KStr k1, v1) # kvs1)) \<noteq> json_dumps (JObj ((KStr k2, v2) # kvs2)))
   \<and> generate_hash L (JObj [(KInt 1, v)]) = generate_hash L (JObj [(KStr ''1'', v)])"
  by (auto simp: generate_hash_def int_repr_def nat_repr.simps hex_digit_def
        dest: dumps_members_first_key)

theorem generate_hash_of_serialisation_witness:
  "json_dumps (JObj [(KStr ''a'', JInt 1)]) = json_dumps (JObj [(KStr ''a'', JInt 1)])
   \<and> generate_hash (BasePersistenceLayer_init jmespath_field [] [] 3600 False 256 md5_hexdigest)
        (JObj [(KStr ''a'', JInt 1)]) = ''42b7b4f2921788ea14dac5566e6f06d0''
   \<and> ''a'' \<noteq> ''b''
   \<and> json_dumps (JObj [(KStr ''a'', JInt 1), (KStr ''b'', JInt 2)])
        \<noteq> json_dumps (JObj [(KStr ''b'', JInt 2), (KStr ''a'', JInt 1)])"
  using generate_hash_of_serialisation
    [where L = "BasePersistenceLayer_init jmespath_field [] [] 3600 False 256 md5_hexdigest"
       and x = "JObj [(KStr ''a'', JInt 1)]" and y = "JObj [(KStr ''a'', JInt 1)]"
       and ?k1.0 = "''a''" and ?k2.0 = "''b''" and ?v1.0 = "JInt 1" and ?v2.0 = "JInt 2"
       and ?kvs1.0 = "[(KStr ''b'', JInt 2)]" and ?kvs2.0 = "[(KStr ''a'', JInt 1)]"
       and v = JNull]
  by (simp add: BasePersistenceLayer_init_def md5_eval json_eval)

text \<open>
  C2 as stated fails: under the default hash function the mapping with the entries
  a = 1 and b = 2 has one digest when a was inserted first and another when b was.
\<close>

theorem generate_hash_key_order_counterexample:
  "generate_hash (BasePersistenceLayer_init jmespath_field [] [] 3600 False 256 md5_hexdigest)
     (JObj [(KStr ''a'', JInt 1), (KStr ''b'', JInt 2)]) = ''8aacdb17187e6acf2b175d4aa08d7213''
   \<and> generate_hash (BasePersistenceLayer_init jmespath_field [] [] 3600 False 256 md5_hexdigest)
     (JObj [(KStr ''b'', JInt 2), (KStr ''a'', JInt 1)]) = ''5f23edf1d0f5fc5639ccde2e01b24da1''
   \<and> map_of [(KStr ''a'', JInt 1), (KStr ''b'', JInt 2)] = map_of [(KStr ''b'', JInt 2), (KStr ''a'', JInt 1)]"
  by (auto simp: generate_hash_def BasePersistenceLayer_init_def md5_eval json_eval)

subsection \<open>Key derivation and payload validation\<close>

lemma md5_x: "md5_hexdigest (json_dumps (JStr ''x'')) = ''3fbf839fa0e778a20326ddc34f5cd588''"
  by (simp add: md5_eval json_eval)

text \<open>
  C6. \<^verbatim>\<open>_validate_payload\<close> raises \<^verbatim>\<open>IdempotencyValidationError\<close> exactly when payload
  validation is enabled and the fingerprint derived from the current event differs from
  the stored one, and it raises nothing else; with validation disabled the derived
  fingerprint is the empty string and validation never raises.
\<close>

theorem validate_payload_raises_iff:
  "((validate_payload L event r = Inl IdempotencyValidationError) \<longleftrightarrow>
      (payload_validation_enabled L \<and> payload_hash r \<noteq> Some (get_hashed_payload L event)))
   \<and> (\<forall>e. validate_payload L event r = Inl e \<longrightarrow> e = IdempotencyValidationError)
   \<and> (payload_validation_enabled L \<longrightarrow>
        get_hashed_payload L event = generate_hash L (validation_key_jmespath L event))
   \<and> (\<not> payload_validation_enabled L \<longrightarrow>
        get_hashed_payload L event = [] \<and> validate_payload L event r = Inr ())"
  by (auto simp: validate_payload_def get_hashed_payload_def)

theorem validate_payload_raises_iff_witness:
  "payload_validation_enabled (BasePersistenceLayer_init jmespath_field [] ''body'' 3600 False 256 md5_hexdigest)
   \<and> get_hashed_payload (BasePersistenceLayer_init jmespath_field [] ''body'' 3600 False 256 md5_hexdigest)
        (JObj [(KStr ''body'', JStr ''x'')]) = ''3fbf839fa0e778a20326ddc34f5cd588''
   \<and> validate_payload (BasePersistenceLayer_init jmespath_field [] ''body'' 3600 False 256 md5_hexdigest)
        (JObj [(KStr ''body'', JStr ''x'')])
        (DataRecord_init ''k''\<lparr>payload_hash := Some ''989a9adf9cfc37e715d0f0d0264bb4f6''\<rparr>)
      = Inl IdempotencyValidationError
   \<and> validate_payload (BasePersistenceLayer_init jmespath_field [] ''body'' 3600 False 256 md5_hexdigest)
        (JObj [(KStr ''body'', JStr ''x'')])
        (DataRecord_init ''k''\<lparr>payload_hash := Some ''3fbf839fa0e778a20326ddc34f5cd588''\<rparr>)
      = Inr ()
   \<and> \<not> payload_validation_enabled (BasePersistenceLayer_init jmespath_field [] [] 3600 False 256 md5_hexdigest)
   \<and> validate_payload (BasePersistenceLayer_init jmespath_field [] [] 3600 False 256 md5_hexdigest)
        (JObj [(KStr ''body'', JStr ''x'')])
        (DataRecord_init ''k''\<lparr>payload_hash := Some ''989a9adf9cfc37e715d0f0d0264bb4f6''\<rparr>)
      = Inr ()"
  using validate_payload_raises_iff
    [of "BasePersistenceLayer_init jmespath_field [] ''body'' 3600 False 256 md5_hexdigest"
        "JObj [(KStr ''body'', JStr ''x'')]"
        "DataRecord_init ''k''\<lparr>payload_hash := Some ''989a9adf9cfc37e715d0f0d0264bb4f6''\<rparr>"]
    validate_payload_raises_iff
    [of "BasePersistenceLayer_init jmespath_field [] [] 3600 False 256 md5_hexdigest"
        "JObj [(KStr ''body'', JStr ''x'')]"
        "DataRecord_init ''k''\<lparr>payload_hash := Some ''989a9adf9cfc37e715d0f0d0264bb4f6''\<rparr>"]
  by (simp add: validate_payload_def get_hashed_payload_def generate_hash_def
        BasePersistenceLayer_init_def DataRecord_init_def jmespath_field_def md5_x
        del: json_dumps.simps)

text \<open>
  C7. With a key expression configured, an event on which the search matches nothing is
  hashed as the serialisation of \<^verbatim>\<open>None\<close>, the four characters null: key derivation
  returns a key, and any two such events get the same key.
\<close>

theorem get_hashed_idempotency_key_no_match:
  "event_key_jmespath L \<noteq> [] \<Longrightarrow>
   event_key_compiled_jmespath L e1 = JNull \<Longrightarrow>
   event_key_compiled_jmespath L e2 = JNull \<Longrightarrow>
     get_hashed_idempotency_key L e1 = hash_function L ''null''
     \<and> get_hashed_idempotency_key L e1 = get_hashed_idempotency_key L e2"
  by (simp add: get_hashed_idempotency_key_def generate_hash_def)

theorem get_hashed_idempotency_key_no_match_witness:
  "event_key_jmespath (BasePersistenceLayer_init jmespath_field ''id'' [] 3600 False 256 md5_hexdigest) \<noteq> []
   \<and> event_key_compiled_jmespath
        (BasePersistenceLayer_init jmespath_field ''id'' [] 3600 False 256 md5_hexdigest)
        (JObj [(KStr ''a'', JInt 1)]) = JNull
   \<and> event_key_compiled_jmespath
        (BasePersistenceLayer_init jmespath_field ''id'' [] 3600 False 256 md5_hexdigest)
        (JObj [(KStr ''b'', JInt 2)]) = JNull
   \<and> JObj [(KStr ''a'', JInt 1)] \<noteq> JObj [(KStr ''b'', JInt 2)]
   \<and> get_hashed_idempotency_key
        (BasePersistenceLayer_init jmespath_field ''id'' [] 3600 False 256 md5_hexdigest)
        (JObj [(KStr ''a'', JInt 1)]) = ''37a6259cc0c1dae299a7866489dff0bd''
   \<and> get_hashed_idempotency_key
        (BasePersistenceLayer_init jmespath_field ''id'' [] 3600 False 256 md5_hexdigest)
        (JObj [(KStr ''a'', JInt 1)])
      = get_hashed_idempotency_key
        (BasePersistenceLayer_init jmespath_field ''id'' [] 3600 False 256 md5_hexdigest)
        (JObj [(KStr ''b'', JInt 2)])"
  using get_hashed_idempotency_key_no_match
    [of "BasePersistenceLayer_init jmespath_field ''id'' [] 3600 False 256 md5_hexdigest"
        "JObj [(KStr ''a'', JInt 1)]" "JObj [(KStr ''b'', JInt 2)]"] md5_null
  by (simp add: BasePersistenceLayer_init_def jmespath_field_def get_hashed_idempotency_key_def
        generate_hash_def)

subsection \<open>Deleting a record\<close>

lemma md5_a1:
  "md5_hexdigest (json_dumps (JObj [(KStr ''a'', JInt 1)])) = ''42b7b4f2921788ea14dac5566e6f06d0''"
  by (simp add: md5_eval json_eval)

text \<open>
  C5 fails on the code. With the local cache enabled and neither the store nor the cache
  holding a record for the event, \<^verbatim>\<open>delete_record\<close> deletes from the store and then raises
  \<^verbatim>\<open>KeyError\<close> from \<^verbatim>\<open>del self._cache[idempotency_key]\<close>.
\<close>

theorem delete_record_absent_key_raises:
  "delete_record (BasePersistenceLayer_init jmespath_field [] [] 3600 True 256 md5_hexdigest)
     (JObj [(KStr ''a'', JInt 1)]) \<lparr>cache = [], store = Map.empty\<rparr>
   = (Inl (KeyError ''42b7b4f2921788ea14dac5566e6f06d0''), \<lparr>cache = [], store = Map.empty\<rparr>)"
  by (simp add: delete_record_def delete_from_cache_def LRUDict_delitem_def store_delete_record_def
        DataRecord_init_def get_hashed_idempotency_key_def generate_hash_def
        BasePersistenceLayer_init_def md5_a1 del: json_dumps.simps)

text \<open>
  C8 fails on the code. On the same event and the same empty store, \<^verbatim>\<open>delete_record\<close>
  raises \<^verbatim>\<open>KeyError\<close> with the local cache enabled and returns normally with it disabled.
\<close>

theorem delete_record_cache_flag_observable:
  "fst (delete_record
          (BasePersistenceLayer_init jmespath_field [] [] 3600 True 256 md5_hexdigest)
          (JObj [(KStr ''a'', JInt 1)]) \<lparr>cache = [], store = Map.empty\<rparr>)
     = Inl (KeyError ''42b7b4f2921788ea14dac5566e6f06d0'')
   \<and> fst (delete_record
          (BasePersistenceLayer_init jmespath_field [] [] 3600 False 256 md5_hexdigest)
          (JObj [(KStr ''a'', JInt 1)]) \<lparr>cache = [], store = Map.empty\<rparr>)
     = Inr ()"
  by (simp add: delete_record_def delete_from_cache_def LRUDict_delitem_def store_delete_record_def
        DataRecord_init_def get_hashed_idempotency_key_def generate_hash_def
        BasePersistenceLayer_init_def md5_a1 del: json_dumps.simps)

subsection \<open>Fetching a record\<close>

lemma md5_body_x:
  "md5_hexdigest (json_dumps (JObj [(KStr ''body'', JStr ''x'')])) = ''1cbb112e0abb5372226fcf265f46336f''"
  by (simp add: md5_eval json_eval)

lemmas get_record_eval = get_record_def retrieve_from_cache_def save_to_cache_def
  validate_payload_def store_get_record_def LRUDict_get_def LRUDict_setitem_def
  get_hashed_idempotency_key_def get_hashed_payload_def generate_hash_def
  BasePersistenceLayer_init_def jmespath_field_def status_def is_expired_def status_consts

text \<open>
  C10, as the code has it. When \<^verbatim>\<open>get_record\<close> misses the cache and fetches a record
  whose fingerprint does not match, with payload validation and the local cache enabled,
  a capacity of at least one, and a derived status that can be read and is not INPROGRESS,
  it raises \<^verbatim>\<open>IdempotencyValidationError\<close> and the fetched record is in the cache afterwards.
\<close>

theorem get_record_mismatch_leaves_record_cached:
  assumes "use_local_cache L" and "0 < local_cache_max_items L"
    and "payload_validation_enabled L"
    and "fst (retrieve_from_cache L now (get_hashed_idempotency_key L event) (cache st)) = Inr None"
    and "store st (get_hashed_idempotency_key L event) = Some r"
    and "status now r = Inr s" and "s \<noteq> INPROGRESS"
    and "payload_hash r \<noteq> Some (get_hashed_payload L event)"
  shows "fst (get_record L now event st) = Inl IdempotencyValidationError
    \<and> map_of (cache (snd (get_record L now event st))) (idempotency_key r) = Some r"
proof -
  obtain c' where c': "retrieve_from_cache L now (get_hashed_idempotency_key L event) (cache st)
      = (Inr None, c')"
    using assms(4) by (cases "retrieve_from_cache L now (get_hashed_idempotency_key L event) (cache st)") simp
  have sv: "save_to_cache L now r c'
      = (Inr (), LRUDict_setitem (local_cache_max_items L) (idempotency_key r) r c')"
    using assms(1,6,7) by (simp add: save_to_cache_def)
  have vp: "validate_payload L event r = Inl IdempotencyValidationError"
    using assms(3,8) by (simp add: validate_payload_def)
  have gr: "get_record L now event st
      = (Inl IdempotencyValidationError,
         st\<lparr>cache := LRUDict_setitem (local_cache_max_items L) (idempotency_key r) r c'\<rparr>)"
    using c' sv vp assms(5) by (simp add: get_record_def store_get_record_def)
  show ?thesis
    using gr LRUDict_setitem_holds [OF assms(2)] by simp
qed

theorem get_record_mismatch_leaves_record_cached_witness:
  "use_local_cache (BasePersistenceLayer_init jmespath_field [] ''body'' 3600 True 256 md5_hexdigest)
   \<and> payload_validation_enabled
        (BasePersistenceLayer_init jmespath_field [] ''body'' 3600 True 256 md5_hexdigest)
   \<and> get_hashed_idempotency_key
        (BasePersistenceLayer_init jmespath_field [] ''body'' 3600 True 256 md5_hexdigest)
        (JObj [(KStr ''body'', JStr ''x'')]) = ''1cbb112e0abb5372226fcf265f46336f''
   \<and> get_hashed_payload
        (BasePersistenceLayer_init jmespath_field [] ''body'' 3600 True 256 md5_hexdigest)
        (JObj [(KStr ''body'', JStr ''x'')]) = ''3fbf839fa0e778a20326ddc34f5cd588''
   \<and> get_record (BasePersistenceLayer_init jmespath_field [] ''body'' 3600 True 256 md5_hexdigest) 50
        (JObj [(KStr ''body'', JStr ''x'')])
        \<lparr>cache = [],
         store = [''1cbb112e0abb5372226fcf265f46336f'' \<mapsto>
           \<lparr>idempotency_key = ''1cbb112e0abb5372226fcf265f46336f'',
            payload_hash = Some ''989a9adf9cfc37e715d0f0d0264bb4f6'',
            expiry_timestamp = Some 100, raw_status = COMPLETED, response_data = ''{}''\<rparr>]\<rparr>
     = (Inl IdempotencyValidationError,
        \<lparr>cache = [(''1cbb112e0abb5372226fcf265f46336f'',
           \<lparr>idempotency_key = ''1cbb112e0abb5372226fcf265f46336f'',
            payload_hash = Some ''989a9adf9cfc37e715d0f0d0264bb4f6'',
            expiry_timestamp = Some 100, raw_status = COMPLETED, response_data = ''{}''\<rparr>)],
         store = [''1cbb112e0abb5372226fcf265f46336f'' \<mapsto>
           \<lparr>idempotency_key = ''1cbb112e0abb5372226fcf265f46336f'',
            payload_hash = Some ''989a9adf9cfc37e715d0f0d0264bb4f6'',
            expiry_timestamp = Some 100, raw_status = COMPLETED, response_data = ''{}''\<rparr>]\<rparr>)"
  using get_record_mismatch_leaves_record_cached
    [where L = "BasePersistenceLayer_init jmespath_field [] ''body'' 3600 True 256 md5_hexdigest"
       and now = 50 and event = "JObj [(KStr ''body'', JStr ''x'')]"
       and st = "\<lparr>cache = [],
         store = [''1cbb112e0abb5372226fcf265f46336f'' \<mapsto>
           \<lparr>idempotency_key = ''1cbb112e0abb5372226fcf265f46336f'',
            payload_hash = Some ''989a9adf9cfc37e715d0f0d0264bb4f6'',
            expiry_timestamp = Some 100, raw_status = COMPLETED, response_data = ''{}''\<rparr>]\<rparr>"
       and r = "\<lparr>idempotency_key = ''1cbb112e0abb5372226fcf265f46336f'',
            payload_hash = Some ''989a9adf9cfc37e715d0f0d0264bb4f6'',
            expiry_timestamp = Some 100, raw_status = COMPLETED, response_data = ''{}''\<rparr>"
       and s = COMPLETED]
  by (simp add: get_record_eval md5_body_x md5_x del: json_dumps.simps)

text \<open>
  C10 as stated fails: when the fetched record is in progress and not expired, the
  mismatch is raised and the cache is still empty afterwards.
\<close>

theorem get_record_mismatch_inprogress_counterexample:
  "get_record (BasePersistenceLayer_init jmespath_field [] ''body'' 3600 True 256 md5_hexdigest) 50
        (JObj [(KStr ''body'', JStr ''x'')])
        \<lparr>cache = [],
         store = [''1cbb112e0abb5372226fcf265f46336f'' \<mapsto>
           \<lparr>idempotency_key = ''1cbb112e0abb5372226fcf265f46336f'',
            payload_hash = Some ''989a9adf9cfc37e715d0f0d0264bb4f6'',
            expiry_timestamp = Some 100, raw_status = INPROGRESS, response_data = []\<rparr>]\<rparr>
     = (Inl IdempotencyValidationError,
        \<lparr>cache = [],
         store = [''1cbb112e0abb5372226fcf265f46336f'' \<mapsto>
           \<lparr>idempotency_key = ''1cbb112e0abb5372226fcf265f46336f'',
            payload_hash = Some ''989a9adf9cfc37e715d0f0d0264bb4f6'',
            expiry_timestamp = Some 100, raw_status = INPROGRESS, response_data = []\<rparr>]\<rparr>)"
  by (simp add: get_record_eval md5_body_x md5_x del: json_dumps.simps)

end
